theory Spec2Isabelle
  imports Main
begin

section \<open>The sidecar injector's certificate patch loop\<close>

text \<open>
  A shallow embedding of \<^verbatim>\<open>patchCertLoop\<close> of
  \<^verbatim>\<open>pilot/cmd/sidecar-injector/main.go\<close>. The function performs four fallible
  startup calls, then launches a goroutine that waits on two channels for ever: a
  one-second ticker, on which it patches the webhook configuration with the cached
  CA bundle, and the file watcher's event channel, on which it reads the CA
  certificate file again.

  The calls that leave the program (Kubernetes client, file system, watcher, patch,
  log) are recorded in order as values of type \<open>call\<close>; what the outside answers is an
  input of the model. The goroutine never returns, so it is modelled by the body of
  one iteration of its \<^verbatim>\<open>select\<close> and by its run over a finite prefix of the
  events it receives, in the order in which the \<^verbatim>\<open>select\<close> received them: the
  iteration for one event ends before the next receive.
\<close>

subsection \<open>Data\<close>

text \<open>A Go \<^verbatim>\<open>[]byte\<close>: a sequence of 8-bit values, which is what \<open>char\<close> is.\<close>

type_synonym bytes = "char list"

text \<open>A Go \<^verbatim>\<open>error\<close> value, by the text its \<^verbatim>\<open>Error()\<close> method gives.\<close>

datatype error = Error string

fun message :: "error \<Rightarrow> string" where
  "message (Error s) = s"

text \<open>\<^verbatim>\<open>time.Duration\<close> counts nanoseconds; \<^verbatim>\<open>time.Second\<close> is 10^9 of them.\<close>

type_synonym duration = int

definition Second :: duration where
  "Second = 1000000000"

text \<open>Handles of the two objects the startup creates; opaque to this program.\<close>

datatype clientset = Clientset nat

datatype watcher = Watcher nat

text \<open>
  The package-level variable \<^verbatim>\<open>flags\<close>. Its fields \<^verbatim>\<open>loggingOptions\<close> and
  \<^verbatim>\<open>probeOptions\<close> have types declared outside this file and are not read by
  \<^verbatim>\<open>patchCertLoop\<close>; they are left out.
\<close>

record flag_values =
  meshconfig :: string
  injectConfigFile :: string
  certFile :: string
  privateKeyFile :: string
  caCertFile :: string
  port :: int
  healthCheckInterval :: duration
  healthCheckFile :: string
  kubeconfigFile :: string
  webhookConfigName :: string
  webhookName :: string

text \<open>The default values that \<^verbatim>\<open>init\<close> registers for the flags.\<close>

definition default_flags :: flag_values where
  "default_flags =
     \<lparr> meshconfig = ''/etc/istio/config/mesh'',
       injectConfigFile = ''/etc/istio/inject/config'',
       certFile = ''/etc/istio/certs/cert-chain.pem'',
       privateKeyFile = ''/etc/istio/certs/key.pem'',
       caCertFile = ''/etc/istio/certs/root-cert.pem'',
       port = 443,
       healthCheckInterval = 0,
       healthCheckFile = [],
       kubeconfigFile = [],
       webhookConfigName = ''istio-sidecar-injector'',
       webhookName = ''sidecar-injector.istio.io'' \<rparr>"

subsection \<open>Calls and what the outside answers\<close>

text \<open>
  The calls \<^verbatim>\<open>patchCertLoop\<close> and its goroutine make, with their arguments:
  \<^verbatim>\<open>kube.CreateClientset\<close>, \<^verbatim>\<open>ioutil.ReadFile\<close>, \<^verbatim>\<open>fsnotify.NewWatcher\<close>,
  \<^verbatim>\<open>watcher.Watch\<close>, the \<^verbatim>\<open>go\<close> statement, \<^verbatim>\<open>time.NewTicker\<close>,
  \<^verbatim>\<open>util.PatchMutatingWebhookConfig\<close> and \<^verbatim>\<open>log.Errorf\<close> (by the line it
  prints).
\<close>

datatype call =
    CreateClientset string string
  | ReadFile string
  | NewWatcher
  | Watch watcher string
  | Go
  | NewTicker duration
  | PatchMutatingWebhookConfig clientset string string bytes
  | Errorf string

text \<open>
  The answers to the startup calls. \<^verbatim>\<open>kube.CreateClientset\<close> is a function of this
  repository outside the file; it is a parameter here, as the library calls are.
\<close>

record startup_env =
  createClientset :: "string \<Rightarrow> string \<Rightarrow> error + clientset"
  readFile :: "string \<Rightarrow> error + bytes"
  newWatcher :: "error + watcher"
  watch :: "watcher \<Rightarrow> string \<Rightarrow> error option"

text \<open>
  What the goroutine's \<^verbatim>\<open>select\<close> receives. A tick comes with the answer
  \<^verbatim>\<open>util.PatchMutatingWebhookConfig\<close> (outside this file, a parameter) gives to
  each possible call at that moment; a watcher event comes with the name of the file
  that changed and with what \<^verbatim>\<open>ioutil.ReadFile\<close> answers for each path at the
  moment the event is handled.
\<close>

datatype event =
    TickerC "clientset \<Rightarrow> string \<Rightarrow> string \<Rightarrow> bytes \<Rightarrow> error option"
  | WatcherEvent string "string \<Rightarrow> error + bytes"

subsection \<open>\<^verbatim>\<open>filepath.Split\<close>\<close>

text \<open>
  Go's \<^verbatim>\<open>filepath.Split\<close> on a system whose separator is \<^verbatim>\<open>/\<close> and that has no
  volume names: \<^verbatim>\<open>i := len(path) - 1; for i >= 0 && path[i] != '/' { i-- };
  return path[:i+1], path[i+1:]\<close>. \<open>split_index path n\<close> is the value of \<^verbatim>\<open>i+1\<close>
  the loop ends with when it starts at \<^verbatim>\<open>i = n - 1\<close>.
\<close>

fun split_index :: "string \<Rightarrow> nat \<Rightarrow> nat" where
  "split_index path 0 = 0"
| "split_index path (Suc i) =
     (if path ! i \<noteq> CHR ''/'' then split_index path i else Suc i)"

definition Split :: "string \<Rightarrow> string \<times> string" where
  "Split path =
     (let k = split_index path (length path) in (take k path, drop k path))"

subsection \<open>Startup\<close>

text \<open>
  The variables the goroutine's closure captures (\<^verbatim>\<open>client\<close>, \<^verbatim>\<open>caCertPem\<close>,
  \<^verbatim>\<open>err\<close>, \<^verbatim>\<open>watcher\<close>) and the package-level \<^verbatim>\<open>flags\<close> it reads in each
  iteration.
\<close>

record loop_state =
  flags :: flag_values
  client :: clientset
  caCertPem :: bytes
  err :: "error option"
  watcher :: watcher

text \<open>
  \<^verbatim>\<open>patchCertLoop\<close> up to its \<^verbatim>\<open>return\<close>: the calls made, in order, and
  either the error returned or the state the goroutine starts in (the function then
  returns \<^verbatim>\<open>nil\<close>).
\<close>

definition patchCertLoop :: "flag_values \<Rightarrow> startup_env \<Rightarrow> call list \<times> (error + loop_state)" where
  "patchCertLoop fl env =
     (case createClientset env (kubeconfigFile fl) [] of
        Inl e \<Rightarrow> ([CreateClientset (kubeconfigFile fl) []], Inl e)
      | Inr c \<Rightarrow>
     (case readFile env (caCertFile fl) of
        Inl e \<Rightarrow> ([CreateClientset (kubeconfigFile fl) [], ReadFile (caCertFile fl)], Inl e)
      | Inr b \<Rightarrow>
     (case newWatcher env of
        Inl e \<Rightarrow>
          ([CreateClientset (kubeconfigFile fl) [], ReadFile (caCertFile fl), NewWatcher], Inl e)
      | Inr w \<Rightarrow>
     (let watchDir = fst (Split (caCertFile fl)) in
      case watch env w watchDir of
        Some e \<Rightarrow>
          ([CreateClientset (kubeconfigFile fl) [], ReadFile (caCertFile fl), NewWatcher,
            Watch w watchDir],
           Inl (Error (''could not watch '' @ caCertFile fl @ '': '' @ message e)))
      | None \<Rightarrow>
          ([CreateClientset (kubeconfigFile fl) [], ReadFile (caCertFile fl), NewWatcher,
            Watch w watchDir, Go],
           Inr \<lparr> flags = fl, client = c, caCertPem = b, err = None, watcher = w \<rparr>)))))"

subsection \<open>The goroutine\<close>

text \<open>
  One iteration of the \<^verbatim>\<open>for { select { ... } }\<close>: the state after it and the calls
  it makes. The tick branch assigns the captured \<^verbatim>\<open>err\<close>; the watcher branch
  declares its own \<^verbatim>\<open>b, err\<close> and assigns \<^verbatim>\<open>caCertPem\<close> only when the read
  succeeds.
\<close>

fun select :: "loop_state \<Rightarrow> event \<Rightarrow> loop_state \<times> call list" where
  "select st (TickerC patch) =
     (let r = patch (client st) (webhookConfigName (flags st)) (webhookName (flags st))
                (caCertPem st);
          p = PatchMutatingWebhookConfig (client st) (webhookConfigName (flags st))
                (webhookName (flags st)) (caCertPem st)
      in case r of
           Some e \<Rightarrow> (st\<lparr>err := r\<rparr>, [p, Errorf (''Patch webhook failed: '' @ message e)])
         | None \<Rightarrow> (st\<lparr>err := r\<rparr>, [p]))"
| "select st (WatcherEvent name fs) =
     (case fs (caCertFile (flags st)) of
        Inr b \<Rightarrow> (st\<lparr>caCertPem := b\<rparr>, [ReadFile (caCertFile (flags st))])
      | Inl e \<Rightarrow>
          (st, [ReadFile (caCertFile (flags st)),
                Errorf (''CA bundle file read error: '' @ message e)]))"

text \<open>The loop over the events received so far.\<close>

fun loop :: "loop_state \<Rightarrow> event list \<Rightarrow> loop_state \<times> call list" where
  "loop st [] = (st, [])"
| "loop st (e # es) =
     (let (st1, cs1) = select st e; (st2, cs2) = loop st1 es in (st2, cs1 @ cs2))"

text \<open>The goroutine: it arms the ticker, then loops.\<close>

definition goroutine :: "loop_state \<Rightarrow> event list \<Rightarrow> loop_state \<times> call list" where
  "goroutine st es = (let (st', cs) = loop st es in (st', NewTicker Second # cs))"

text \<open>
  The program as a whole on a finite prefix of the events: the calls of
  \<^verbatim>\<open>patchCertLoop\<close>, followed, when it returns \<^verbatim>\<open>nil\<close>, by those of the
  goroutine it launched.
\<close>

definition run :: "flag_values \<Rightarrow> startup_env \<Rightarrow> event list \<Rightarrow> call list \<times> (error + loop_state)" where
  "run fl env es =
     (case patchCertLoop fl env of
        (cs, Inl e) \<Rightarrow> (cs, Inl e)
      | (cs, Inr st) \<Rightarrow> (cs @ snd (goroutine st es), Inr (fst (goroutine st es))))"

subsection \<open>Observations on calls and events\<close>

fun is_patch :: "call \<Rightarrow> bool" where
  "is_patch (PatchMutatingWebhookConfig c n w b) = True"
| "is_patch _ = False"

definition patches :: "call list \<Rightarrow> call list" where
  "patches cs = filter is_patch cs"

fun is_read :: "call \<Rightarrow> bool" where
  "is_read (ReadFile p) = True"
| "is_read _ = False"

fun is_watch :: "call \<Rightarrow> bool" where
  "is_watch (Watch w d) = True"
| "is_watch _ = False"

fun is_ticker :: "call \<Rightarrow> bool" where
  "is_ticker (NewTicker d) = True"
| "is_ticker _ = False"

fun is_log :: "call \<Rightarrow> bool" where
  "is_log (Errorf s) = True"
| "is_log _ = False"

fun is_tick :: "event \<Rightarrow> bool" where
  "is_tick (TickerC patch) = True"
| "is_tick (WatcherEvent name fs) = False"

text \<open>The patch call the loop makes in state \<open>st\<close>.\<close>

definition patch_of :: "loop_state \<Rightarrow> call" where
  "patch_of st =
     PatchMutatingWebhookConfig (client st) (webhookConfigName (flags st))
       (webhookName (flags st)) (caCertPem st)"

text \<open>A tick at which the patch call, made in state \<open>st\<close>, returns an error.\<close>

fun patch_fails :: "loop_state \<Rightarrow> event \<Rightarrow> bool" where
  "patch_fails st (TickerC patch) =
     (patch (client st) (webhookConfigName (flags st)) (webhookName (flags st))
        (caCertPem st) \<noteq> None)"
| "patch_fails st (WatcherEvent name fs) = False"

text \<open>
  The specification's words for the cached bundle: the content of the most recent
  successful read of the file at \<open>p\<close> among the events handled, or the content \<open>b0\<close>
  of the startup read when no later read succeeded.
\<close>

fun successful_reads :: "string \<Rightarrow> event list \<Rightarrow> bytes list" where
  "successful_reads p [] = []"
| "successful_reads p (TickerC patch # es) = successful_reads p es"
| "successful_reads p (WatcherEvent name fs # es) =
     (case fs p of
        Inr b \<Rightarrow> b # successful_reads p es
      | Inl e \<Rightarrow> successful_reads p es)"

definition most_recent_read :: "string \<Rightarrow> bytes \<Rightarrow> event list \<Rightarrow> bytes" where
  "most_recent_read p b0 es = last (b0 # successful_reads p es)"

subsection \<open>Concrete surroundings\<close>

text \<open>A file system that holds the given content at the default CA certificate path only.\<close>

definition fs_with :: "bytes \<Rightarrow> string \<Rightarrow> error + bytes" where
  "fs_with b p =
     (if p = ''/etc/istio/certs/root-cert.pem'' then Inr b
      else Inl (Error ''no such file or directory''))"

definition fs_missing :: "string \<Rightarrow> error + bytes" where
  "fs_missing p = Inl (Error ''no such file or directory'')"

text \<open>Startup surroundings in which every call succeeds and the file holds \<open>b\<close>.\<close>

definition env_ok :: "bytes \<Rightarrow> startup_env" where
  "env_ok b =
     \<lparr> createClientset = (\<lambda>kubeconfig ctx. Inr (Clientset 0)),
       readFile = fs_with b,
       newWatcher = Inr (Watcher 0),
       watch = (\<lambda>w d. None) \<rparr>"

text \<open>The same, but no Kubernetes client can be created.\<close>

definition env_no_client :: startup_env where
  "env_no_client =
     (env_ok ''CERT_A'')
       \<lparr> createClientset := (\<lambda>kubeconfig ctx. Inl (Error ''no kubeconfig'')) \<rparr>"

text \<open>The same as \<open>env_ok\<close>, but the CA certificate file is absent.\<close>

definition env_unreadable :: startup_env where
  "env_unreadable = (env_ok ''CERT_A'') \<lparr> readFile := fs_missing \<rparr>"

text \<open>The same as \<open>env_ok\<close>, but no watch can be registered.\<close>

definition env_no_watch :: startup_env where
  "env_no_watch =
     (env_ok ''CERT_A'') \<lparr> watch := (\<lambda>w d. Some (Error ''no space left on device'')) \<rparr>"

definition patch_ok :: "clientset \<Rightarrow> string \<Rightarrow> string \<Rightarrow> bytes \<Rightarrow> error option" where
  "patch_ok c n w b = None"

definition patch_err :: "clientset \<Rightarrow> string \<Rightarrow> string \<Rightarrow> bytes \<Rightarrow> error option" where
  "patch_err c n w b = Some (Error ''not found'')"

text \<open>A configuration that differs from the default one in every value.\<close>

definition other_flags :: flag_values where
  "other_flags =
     \<lparr> meshconfig = ''/m'',
       injectConfigFile = ''/i'',
       certFile = ''/c'',
       privateKeyFile = ''/k'',
       caCertFile = ''/ca/root.pem'',
       port = 8443,
       healthCheckInterval = 5000000000,
       healthCheckFile = ''/h'',
       kubeconfigFile = ''/kube'',
       webhookConfigName = ''cfg'',
       webhookName = ''hook'' \<rparr>"

definition env_other :: startup_env where
  "env_other =
     \<lparr> createClientset = (\<lambda>kubeconfig ctx. Inr (Clientset 1)),
       readFile = (\<lambda>p. Inr ''CERT_O''),
       newWatcher = Inr (Watcher 1),
       watch = (\<lambda>w d. None) \<rparr>"

text \<open>The state the goroutine starts in under \<open>default_flags\<close> and \<open>env_ok b\<close>.\<close>

definition started :: "bytes \<Rightarrow> loop_state" where
  "started b =
     \<lparr> flags = default_flags, client = Clientset 0, caCertPem = b, err = None,
       watcher = Watcher 0 \<rparr>"

section \<open>Properties\<close>

subsection \<open>The loop, step by step\<close>

lemma loop_append:
  "loop st (es @ es') =
     (fst (loop (fst (loop st es)) es'), snd (loop st es) @ snd (loop (fst (loop st es)) es'))"
  by (induction es arbitrary: st) (auto simp: split_def Let_def)

lemma select_keeps:
  "flags (fst (select st e)) = flags st"
  "client (fst (select st e)) = client st"
  "watcher (fst (select st e)) = watcher st"
  by (cases e; simp add: Let_def split: option.split sum.split)+

lemma select_tick:
  "select st (TickerC patch) =
     (st\<lparr>err := patch (client st) (webhookConfigName (flags st)) (webhookName (flags st)) (caCertPem st)\<rparr>,
      patch_of st #
      (case patch (client st) (webhookConfigName (flags st)) (webhookName (flags st)) (caCertPem st) of
         None \<Rightarrow> [] | Some e \<Rightarrow> [Errorf (''Patch webhook failed: '' @ message e)]))"
  by (simp add: Let_def patch_of_def split: option.split)

lemma patches_select_tick: "patches (snd (select st (TickerC patch))) = [patch_of st]"
  by (simp add: patches_def patch_of_def Let_def split: option.split)

lemma patches_select_event: "patches (snd (select st (WatcherEvent name fs))) = []"
  by (simp add: patches_def split: sum.split)

lemma patches_append: "patches (xs @ ys) = patches xs @ patches ys"
  by (simp add: patches_def)

lemma loop_keeps:
  "flags (fst (loop st es)) = flags st"
  "client (fst (loop st es)) = client st"
  "watcher (fst (loop st es)) = watcher st"
  by (induction es arbitrary: st; simp add: split_def Let_def select_keeps)+

lemma loop_Cons:
  "loop st (e # es) = (fst (loop (fst (select st e)) es), snd (select st e) @ snd (loop (fst (select st e)) es))"
  by (simp add: split_def Let_def)

lemma loop_snoc:
  "loop st (es @ [e]) =
     (fst (select (fst (loop st es)) e), snd (loop st es) @ snd (select (fst (loop st es)) e))"
  by (simp add: loop_append loop_Cons)

lemma loop_caCertPem:
  "caCertPem (fst (loop st es)) = most_recent_read (caCertFile (flags st)) (caCertPem st) es"
proof (induction es arbitrary: st)
  case Nil
  show ?case by (simp add: most_recent_read_def)
next
  case (Cons e es)
  show ?case
  proof (cases e)
    case (TickerC patch)
    then show ?thesis
      using Cons [of "fst (select st e)"]
      by (simp add: loop_Cons select_tick most_recent_read_def del: select.simps loop.simps)
  next
    case (WatcherEvent name fs)
    then show ?thesis
      using Cons [of "fst (select st e)"]
      by (cases "fs (caCertFile (flags st))")
         (simp_all add: loop_Cons most_recent_read_def del: loop.simps)
  qed
qed

lemma loop_patch_count:
  "length (patches (snd (loop st es))) = length (filter is_tick es)"
proof (induction es arbitrary: st)
  case Nil
  show ?case by (simp add: patches_def)
next
  case (Cons e es)
  show ?case
    using Cons [of "fst (select st e)"]
    by (cases e)
       (simp_all add: loop_Cons patches_append patches_select_tick patches_select_event
          del: select.simps loop.simps)
qed

lemma loop_no_tick:
  "\<forall>e\<in>set es. \<not> is_tick e \<Longrightarrow> patches (snd (loop st es)) = []"
  using loop_patch_count [of st es] by (simp del: loop.simps)

lemma err_irrelevant_select:
  "st\<lparr>err := None\<rparr> = st'\<lparr>err := None\<rparr> \<Longrightarrow>
     snd (select st e) = snd (select st' e) \<and>
     (fst (select st e))\<lparr>err := None\<rparr> = (fst (select st' e))\<lparr>err := None\<rparr>"
proof -
  assume a: "st\<lparr>err := None\<rparr> = st'\<lparr>err := None\<rparr>"
  have eqs: "flags st = flags st'" "client st = client st'" "caCertPem st = caCertPem st'"
    "watcher st = watcher st'"
    using arg_cong [OF a, of flags] arg_cong [OF a, of client]
      arg_cong [OF a, of caCertPem] arg_cong [OF a, of watcher]
    by simp_all
  show ?thesis
    using a eqs by (cases e) (auto simp: Let_def split: option.split sum.split)
qed

lemma err_irrelevant_loop:
  "st\<lparr>err := None\<rparr> = st'\<lparr>err := None\<rparr> \<Longrightarrow>
     snd (loop st es) = snd (loop st' es) \<and>
     (fst (loop st es))\<lparr>err := None\<rparr> = (fst (loop st' es))\<lparr>err := None\<rparr>"
proof (induction es arbitrary: st st')
  case Nil
  then show ?case by simp
next
  case (Cons e es)
  from err_irrelevant_select [OF Cons.prems, of e]
  have s: "snd (select st e) = snd (select st' e)"
    and f: "(fst (select st e))\<lparr>err := None\<rparr> = (fst (select st' e))\<lparr>err := None\<rparr>"
    by simp_all
  from Cons.IH [OF f] s show ?case
    by (simp add: loop_Cons del: loop.simps select.simps)
qed

lemma patchCertLoop_Inr:
  assumes "patchCertLoop fl env = (cs, Inr st)"
  shows "\<exists>c b w. createClientset env (kubeconfigFile fl) [] = Inr c \<and>
           readFile env (caCertFile fl) = Inr b \<and> newWatcher env = Inr w \<and>
           watch env w (fst (Split (caCertFile fl))) = None \<and>
           cs = [CreateClientset (kubeconfigFile fl) [], ReadFile (caCertFile fl), NewWatcher,
                 Watch w (fst (Split (caCertFile fl))), Go] \<and>
           st = \<lparr> flags = fl, client = c, caCertPem = b, err = None, watcher = w \<rparr>"
  using assms
  by (auto simp: patchCertLoop_def Let_def split: sum.splits option.splits)

lemma patch_of_err: "patch_of (st\<lparr>err := x\<rparr>) = patch_of st"
  by (simp add: patch_of_def)

lemma patch_fails_err: "patch_fails (st\<lparr>err := x\<rparr>) e = patch_fails st e"
  by (cases e) simp_all

lemma select_failing_tick:
  "patch_fails st e \<Longrightarrow>
     \<exists>x. fst (select st e) = st\<lparr>err := Some x\<rparr> \<and>
         snd (select st e) = [patch_of st, Errorf (''Patch webhook failed: '' @ message x)]"
  by (cases e) (auto simp: Let_def patch_of_def)

lemma failing_ticks:
  "\<forall>e\<in>set es. patch_fails st e \<Longrightarrow>
     (fst (loop st es))\<lparr>err := None\<rparr> = st\<lparr>err := None\<rparr> \<and>
     patches (snd (loop st es)) = replicate (length es) (patch_of st) \<and>
     length (filter is_log (snd (loop st es))) = length es"
proof (induction es arbitrary: st)
  case Nil
  show ?case by (simp add: patches_def)
next
  case (Cons e es)
  from Cons.prems have "patch_fails st e" by simp
  from select_failing_tick [OF this] obtain x where
    f: "fst (select st e) = st\<lparr>err := Some x\<rparr>" and
    s: "snd (select st e) = [patch_of st, Errorf (''Patch webhook failed: '' @ message x)]"
    by blast
  from Cons.prems have "\<forall>e\<in>set es. patch_fails (st\<lparr>err := Some x\<rparr>) e"
    by (simp add: patch_fails_err)
  from Cons.IH [OF this] show ?case
    by (simp add: loop_Cons f s patches_append patch_of_err patches_def patch_of_def
          del: loop.simps select.simps)
qed

subsection \<open>Calls of the loop, and \<^verbatim>\<open>filepath.Split\<close>\<close>

lemma patch_of_loop:
  "patch_of (fst (loop st es)) =
     PatchMutatingWebhookConfig (client st) (webhookConfigName (flags st)) (webhookName (flags st))
       (most_recent_read (caCertFile (flags st)) (caCertPem st) es)"
  by (simp add: patch_of_def loop_keeps loop_caCertPem)

lemma select_event_state:
  "fst (select st (WatcherEvent name fs)) =
     st\<lparr>caCertPem := most_recent_read (caCertFile (flags st)) (caCertPem st) [WatcherEvent name fs]\<rparr>"
  by (simp add: most_recent_read_def split: sum.split)

lemma select_calls:
  "c \<in> set (snd (select st e)) \<Longrightarrow>
     c = patch_of st \<or> c = ReadFile (caCertFile (flags st)) \<or> is_log c"
  by (cases e) (auto simp: Let_def patch_of_def split: option.splits sum.splits)

lemma loop_calls:
  "c \<in> set (snd (loop st es)) \<Longrightarrow>
     (\<exists>b. c = PatchMutatingWebhookConfig (client st) (webhookConfigName (flags st))
              (webhookName (flags st)) b) \<or>
     c = ReadFile (caCertFile (flags st)) \<or> is_log c"
proof (induction es arbitrary: st)
  case Nil
  then show ?case by simp
next
  case (Cons e es)
  from Cons.prems have "c \<in> set (snd (select st e)) \<or> c \<in> set (snd (loop (fst (select st e)) es))"
    by (simp add: loop_Cons del: loop.simps select.simps)
  then show ?case
  proof
    assume "c \<in> set (snd (select st e))"
    from select_calls [OF this] show ?thesis by (auto simp: patch_of_def)
  next
    assume "c \<in> set (snd (loop (fst (select st e)) es))"
    from Cons.IH [OF this] show ?thesis by (simp add: select_keeps del: select.simps)
  qed
qed

lemma loop_no_ticker: "filter is_ticker (snd (loop st es)) = []"
proof -
  have "\<not> is_ticker c" if "c \<in> set (snd (loop st es))" for c
    using loop_calls [OF that] by (cases c) auto
  then show ?thesis by (simp del: loop.simps)
qed

lemma split_index_le: "split_index p n \<le> n"
  by (induction n) simp_all

lemma split_index_no_sep:
  "split_index p n \<le> i \<Longrightarrow> i < n \<Longrightarrow> p ! i \<noteq> CHR ''/''"
proof (induction n)
  case 0
  then show ?case by simp
next
  case (Suc n)
  show ?case
  proof (cases "p ! n = CHR ''/''")
    case True
    with Suc.prems show ?thesis by simp
  next
    case False
    show ?thesis
    proof (cases "i = n")
      case True
      with False show ?thesis by simp
    next
      case ne: False
      with Suc.prems False have "split_index p n \<le> i" "i < n" by simp_all
      then show ?thesis by (rule Suc.IH)
    qed
  qed
qed

lemma split_index_sep:
  "0 < split_index p n \<Longrightarrow> p ! (split_index p n - 1) = CHR ''/''"
  by (induction n) (simp_all split: if_splits)

lemma Split_append: "fst (Split p) @ snd (Split p) = p"
  by (simp add: Split_def Let_def)

lemma Split_file: "CHR ''/'' \<notin> set (snd (Split p))"
proof
  assume "CHR ''/'' \<in> set (snd (Split p))"
  then obtain j where j: "j < length p - split_index p (length p)"
    and eq: "drop (split_index p (length p)) p ! j = CHR ''/''"
    by (auto simp: Split_def Let_def in_set_conv_nth)
  from j eq have "p ! (split_index p (length p) + j) = CHR ''/''"
    by simp
  moreover have "p ! (split_index p (length p) + j) \<noteq> CHR ''/''"
    using j by (intro split_index_no_sep [where n = "length p"]) simp_all
  ultimately show False by simp
qed

lemma Split_dir: "fst (Split p) = [] \<or> last (fst (Split p)) = CHR ''/''"
proof (cases "split_index p (length p) = 0")
  case True
  then show ?thesis by (simp add: Split_def Let_def)
next
  case False
  then have pos: "0 < split_index p (length p)" by simp
  have le: "split_index p (length p) \<le> length p" by (rule split_index_le)
  from pos le have ne: "take (split_index p (length p)) p \<noteq> []" by auto
  have "last (take (split_index p (length p)) p) = p ! (split_index p (length p) - 1)"
    using pos le ne by (simp add: last_conv_nth min_absorb2)
  with split_index_sep [OF pos] show ?thesis
    by (simp add: Split_def Let_def)
qed

lemma Split_proper: "snd (Split p) \<noteq> [] \<Longrightarrow> fst (Split p) \<noteq> p"
  using Split_append [of p] by (metis append_self_conv)

lemma start_ok:
  "patchCertLoop default_flags (env_ok b) =
     ([CreateClientset [] [], ReadFile ''/etc/istio/certs/root-cert.pem'', NewWatcher,
       Watch (Watcher 0) ''/etc/istio/certs/'', Go], Inr (started b))"
  by (simp add: patchCertLoop_def default_flags_def env_ok_def fs_with_def Split_def started_def)

lemma goroutine_calls: "snd (goroutine st es) = NewTicker Second # snd (loop st es)"
  by (simp add: goroutine_def split_def Let_def)

lemma goroutine_state: "fst (goroutine st es) = fst (loop st es)"
  by (simp add: goroutine_def split_def Let_def)

subsection \<open>The claims\<close>

text \<open>
  Claim C1. At every timer tick the loop makes exactly one patch call, and the bundle
  it passes is the cached \<^verbatim>\<open>caCertPem\<close> unchanged: after any events \<open>es\<close> handled
  since a successful start, that is the content of the most recent successful read of
  the certificate file among \<open>es\<close>, or the content of the startup read when none
  succeeded.
\<close>

theorem tick_patches_most_recent_read:
  assumes "patchCertLoop fl env = (cs, Inr st)"
  shows "\<exists>b0. readFile env (caCertFile fl) = Inr b0 \<and>
           caCertPem (fst (loop st es)) = most_recent_read (caCertFile fl) b0 es \<and>
           patches (snd (select (fst (loop st es)) (TickerC patch))) =
             [PatchMutatingWebhookConfig (client st) (webhookConfigName fl) (webhookName fl)
                (most_recent_read (caCertFile fl) b0 es)]"
proof -
  from patchCertLoop_Inr [OF assms] obtain c b w where
    r: "readFile env (caCertFile fl) = Inr b" and
    st: "st = \<lparr> flags = fl, client = c, caCertPem = b, err = None, watcher = w \<rparr>"
    by blast
  have "caCertPem (fst (loop st es)) = most_recent_read (caCertFile fl) b es"
    using loop_caCertPem [of st es] by (simp add: st)
  moreover have "patch_of (fst (loop st es)) =
      PatchMutatingWebhookConfig (client st) (webhookConfigName fl) (webhookName fl)
        (most_recent_read (caCertFile fl) b es)"
    using loop_caCertPem [of st es] loop_keeps [of st es]
    by (simp add: patch_of_def st)
  ultimately show ?thesis
    using r by (simp add: patches_select_tick del: select.simps)
qed

theorem tick_patches_most_recent_read_witness:
  "patchCertLoop default_flags (env_ok ''CERT_A'') =
     ([CreateClientset [] [], ReadFile ''/etc/istio/certs/root-cert.pem'', NewWatcher,
       Watch (Watcher 0) ''/etc/istio/certs/'', Go], Inr (started ''CERT_A'')) \<and>
   patches (snd (select (fst (loop (started ''CERT_A'') [])) (TickerC patch_ok))) =
     [PatchMutatingWebhookConfig (Clientset 0) ''istio-sidecar-injector''
        ''sidecar-injector.istio.io'' ''CERT_A''] \<and>
   patches (snd (select (fst (loop (started ''CERT_A'')
       [TickerC patch_ok, WatcherEvent ''/etc/istio/certs/root-cert.pem'' (fs_with ''CERT_B'')]))
       (TickerC patch_ok))) =
     [PatchMutatingWebhookConfig (Clientset 0) ''istio-sidecar-injector''
        ''sidecar-injector.istio.io'' ''CERT_B'']"
proof -
  note s = start_ok [of "''CERT_A''"]
  show ?thesis
    using tick_patches_most_recent_read [OF s, of "[]" patch_ok]
      tick_patches_most_recent_read [OF s,
        of "[TickerC patch_ok, WatcherEvent ''/etc/istio/certs/root-cert.pem'' (fs_with ''CERT_B'')]"
        patch_ok]
    by (simp add: patchCertLoop_def Split_def most_recent_read_def env_ok_def fs_with_def
          default_flags_def started_def patches_def patch_ok_def)
qed

text \<open>
  Claim C2. When the read made for a watcher event fails, the iteration logs the
  failure and leaves the whole state, the cached bundle included, as it was; the loop
  goes on from the same state, so every later patch is the one it would have been
  without the event.
\<close>

theorem failed_refresh_keeps_bundle:
  assumes "fs (caCertFile (flags st)) = Inl e"
  shows "select st (WatcherEvent name fs) =
           (st, [ReadFile (caCertFile (flags st)),
                 Errorf (''CA bundle file read error: '' @ message e)]) \<and>
         fst (loop st (WatcherEvent name fs # es)) = fst (loop st es) \<and>
         patches (snd (loop st (WatcherEvent name fs # es))) = patches (snd (loop st es))"
  using assms by (simp add: loop_Cons patches_def del: loop.simps)

theorem failed_refresh_keeps_bundle_witness:
  "fs_missing (caCertFile (flags (started ''CERT_A''))) = Inl (Error ''no such file or directory'') \<and>
   fst (select (started ''CERT_A'') (WatcherEvent ''/etc/istio/certs/root-cert.pem'' fs_missing)) =
     started ''CERT_A'' \<and>
   patches (snd (loop (started ''CERT_A'')
      [WatcherEvent ''/etc/istio/certs/root-cert.pem'' fs_missing, TickerC patch_ok])) =
     [PatchMutatingWebhookConfig (Clientset 0) ''istio-sidecar-injector''
        ''sidecar-injector.istio.io'' ''CERT_A'']"
proof -
  have h: "fs_missing (caCertFile (flags (started ''CERT_A''))) =
      Inl (Error ''no such file or directory'')"
    by (simp add: fs_missing_def)
  show ?thesis
    using failed_refresh_keeps_bundle [of fs_missing "started ''CERT_A''"
        "Error ''no such file or directory''" "''/etc/istio/certs/root-cert.pem''"
        "[TickerC patch_ok]", OF h]
    by (simp add: fs_missing_def patches_def patch_ok_def started_def default_flags_def)
qed

text \<open>
  Claim C3. After \<open>K\<close> ticks whose patch calls all fail (the events \<open>es\<close>), the
  loop is still running and nothing but the captured \<^verbatim>\<open>err\<close>, which no later
  iteration reads, differs from the state before: each of the \<open>K\<close> ticks made its
  patch call and logged one line, the next tick makes the patch call again, and all
  later behaviour is what it would have been without the failures.
\<close>

theorem failed_patches_are_retried:
  assumes "\<forall>e\<in>set es. patch_fails st e"
  shows "(fst (loop st es))\<lparr>err := None\<rparr> = st\<lparr>err := None\<rparr> \<and>
         patches (snd (loop st es)) = replicate (length es) (patch_of st) \<and>
         length (filter is_log (snd (loop st es))) = length es \<and>
         patches (snd (select (fst (loop st es)) (TickerC patch))) = [patch_of st] \<and>
         snd (loop (fst (loop st es)) es') = snd (loop st es')"
proof -
  from failing_ticks [OF assms] have
    a: "(fst (loop st es))\<lparr>err := None\<rparr> = st\<lparr>err := None\<rparr>" and
    b: "patches (snd (loop st es)) = replicate (length es) (patch_of st)" and
    c: "length (filter is_log (snd (loop st es))) = length es"
    by simp_all
  have "patch_of ((fst (loop st es))\<lparr>err := None\<rparr>) = patch_of (st\<lparr>err := None\<rparr>)"
    using a by simp
  then have d: "patch_of (fst (loop st es)) = patch_of st"
    by (simp only: patch_of_err)
  from err_irrelevant_loop [OF a, of es'] have
    e: "snd (loop (fst (loop st es)) es') = snd (loop st es')"
    by simp
  show ?thesis
    using a b c d e by (simp add: patches_select_tick del: select.simps loop.simps)
qed

theorem failed_patches_are_retried_witness:
  "patch_fails (started ''CERT_A'') (TickerC patch_err) \<and>
   caCertPem (fst (loop (started ''CERT_A'') [TickerC patch_err, TickerC patch_err])) = ''CERT_A'' \<and>
   snd (loop (started ''CERT_A'') [TickerC patch_err, TickerC patch_err]) =
     [patch_of (started ''CERT_A''), Errorf ''Patch webhook failed: not found'',
      patch_of (started ''CERT_A''), Errorf ''Patch webhook failed: not found''] \<and>
   patches (snd (select (fst (loop (started ''CERT_A'') [TickerC patch_err, TickerC patch_err]))
      (TickerC patch_err))) =
     [PatchMutatingWebhookConfig (Clientset 0) ''istio-sidecar-injector''
        ''sidecar-injector.istio.io'' ''CERT_A'']"
proof -
  have h: "\<forall>e\<in>set [TickerC patch_err, TickerC patch_err]. patch_fails (started ''CERT_A'') e"
    by (simp add: patch_err_def)
  show ?thesis
    using failed_patches_are_retried [OF h, of patch_err "[]"]
    by (simp add: patch_of_def patch_err_def started_def default_flags_def Let_def patches_def)
qed

text \<open>
  Claim C4, as stated, fails: \<^verbatim>\<open>patchCertLoop\<close> also returns an error, before it
  reads the file at all, when \<^verbatim>\<open>kube.CreateClientset\<close> fails, although the read
  of the certificate file and the registration of the watch would both succeed.
\<close>

theorem start_fails_counterexample:
  "readFile env_no_client (caCertFile default_flags) = Inr ''CERT_A'' \<and>
   watch env_no_client (Watcher 0) (fst (Split (caCertFile default_flags))) = None \<and>
   patchCertLoop default_flags env_no_client =
     ([CreateClientset [] []], Inl (Error ''no kubeconfig''))"
  by (simp add: patchCertLoop_def env_no_client_def env_ok_def fs_with_def default_flags_def)

text \<open>
  Claim C4, amended. \<^verbatim>\<open>patchCertLoop\<close> returns an error exactly when one of its
  four startup calls fails (creation of the Kubernetes client, the read of the
  certificate file, creation of the watcher, registration of the watch on the
  directory part of the certificate path), and the goroutine is launched exactly when
  it returns no error. A failed read returns the read's own error; a failed
  registration returns an error that names the certificate path and quotes the
  watcher's error.
\<close>

theorem start_fails_iff_a_startup_call_fails:
  "(isl (snd (patchCertLoop fl env)) \<longleftrightarrow>
      \<not> (\<exists>c b w. createClientset env (kubeconfigFile fl) [] = Inr c \<and>
            readFile env (caCertFile fl) = Inr b \<and> newWatcher env = Inr w \<and>
            watch env w (fst (Split (caCertFile fl))) = None)) \<and>
   (Go \<in> set (fst (patchCertLoop fl env)) \<longleftrightarrow> \<not> isl (snd (patchCertLoop fl env))) \<and>
   (createClientset env (kubeconfigFile fl) [] = Inr c \<and>
    readFile env (caCertFile fl) = Inl e \<longrightarrow>
      snd (patchCertLoop fl env) = Inl e) \<and>
   (createClientset env (kubeconfigFile fl) [] = Inr c \<and>
    readFile env (caCertFile fl) = Inr b \<and> newWatcher env = Inr w \<and>
    watch env w (fst (Split (caCertFile fl))) = Some e' \<longrightarrow>
      snd (patchCertLoop fl env) =
        Inl (Error (''could not watch '' @ caCertFile fl @ '': '' @ message e')))"
proof -
  have a: "isl (snd (patchCertLoop fl env)) \<longleftrightarrow>
      \<not> (\<exists>c b w. createClientset env (kubeconfigFile fl) [] = Inr c \<and>
            readFile env (caCertFile fl) = Inr b \<and> newWatcher env = Inr w \<and>
            watch env w (fst (Split (caCertFile fl))) = None)"
    by (auto simp: patchCertLoop_def Let_def split: sum.splits option.splits)
  have b: "Go \<in> set (fst (patchCertLoop fl env)) \<longleftrightarrow> \<not> isl (snd (patchCertLoop fl env))"
    by (auto simp: patchCertLoop_def Let_def split: sum.splits option.splits)
  have c: "snd (patchCertLoop fl env) = Inl e"
    if "createClientset env (kubeconfigFile fl) [] = Inr c"
      and "readFile env (caCertFile fl) = Inl e"
    using that by (simp add: patchCertLoop_def)
  have d: "snd (patchCertLoop fl env) =
        Inl (Error (''could not watch '' @ caCertFile fl @ '': '' @ message e'))"
    if "createClientset env (kubeconfigFile fl) [] = Inr c"
      and "readFile env (caCertFile fl) = Inr b" and "newWatcher env = Inr w"
      and "watch env w (fst (Split (caCertFile fl))) = Some e'"
    using that by (simp add: patchCertLoop_def Let_def)
  from a b c d show ?thesis by blast
qed

theorem start_fails_iff_a_startup_call_fails_witness:
  "createClientset env_unreadable (kubeconfigFile default_flags) [] = Inr (Clientset 0) \<and>
   readFile env_unreadable (caCertFile default_flags) =
     Inl (Error ''no such file or directory'') \<and>
   snd (patchCertLoop default_flags env_unreadable) =
     Inl (Error ''no such file or directory'') \<and>
   Go \<notin> set (fst (patchCertLoop default_flags env_unreadable)) \<and>
   watch env_no_watch (Watcher 0) (fst (Split (caCertFile default_flags))) =
     Some (Error ''no space left on device'') \<and>
   snd (patchCertLoop default_flags env_no_watch) =
     Inl (Error ''could not watch /etc/istio/certs/root-cert.pem: no space left on device'') \<and>
   Go \<notin> set (fst (patchCertLoop default_flags env_no_watch)) \<and>
   \<not> isl (snd (patchCertLoop default_flags (env_ok ''CERT_A''))) \<and>
   Go \<in> set (fst (patchCertLoop default_flags (env_ok ''CERT_A'')))"
proof -
  have u1: "createClientset env_unreadable (kubeconfigFile default_flags) [] =
      Inr (Clientset 0)"
    by (simp add: env_unreadable_def env_ok_def)
  have u2: "readFile env_unreadable (caCertFile default_flags) =
      Inl (Error ''no such file or directory'')"
    by (simp add: env_unreadable_def fs_missing_def)
  note tu = start_fails_iff_a_startup_call_fails [of default_flags env_unreadable
      "Clientset 0" "Error ''no such file or directory''"]
  from tu u1 u2 have u3: "snd (patchCertLoop default_flags env_unreadable) =
      Inl (Error ''no such file or directory'')"
    by blast
  from tu u3 have u4: "Go \<notin> set (fst (patchCertLoop default_flags env_unreadable))"
    by simp
  have w1: "createClientset env_no_watch (kubeconfigFile default_flags) [] = Inr (Clientset 0)"
    "readFile env_no_watch (caCertFile default_flags) = Inr ''CERT_A''"
    "newWatcher env_no_watch = Inr (Watcher 0)"
    by (simp_all add: env_no_watch_def env_ok_def fs_with_def default_flags_def)
  have w2: "watch env_no_watch (Watcher 0) (fst (Split (caCertFile default_flags))) =
      Some (Error ''no space left on device'')"
    by (simp add: env_no_watch_def)
  note tw = start_fails_iff_a_startup_call_fails [of default_flags env_no_watch
      "Clientset 0" _ "''CERT_A''" "Watcher 0" "Error ''no space left on device''"]
  from tw w1 w2 have "snd (patchCertLoop default_flags env_no_watch) =
      Inl (Error (''could not watch '' @ caCertFile default_flags @ '': '' @
        message (Error ''no space left on device'')))"
    by blast
  then have w3: "snd (patchCertLoop default_flags env_no_watch) =
      Inl (Error ''could not watch /etc/istio/certs/root-cert.pem: no space left on device'')"
    by (simp add: default_flags_def)
  from tw w3 have w4: "Go \<notin> set (fst (patchCertLoop default_flags env_no_watch))"
    by simp
  have o1: "\<not> isl (snd (patchCertLoop default_flags (env_ok ''CERT_A'')))"
    by (simp add: start_ok)
  from start_fails_iff_a_startup_call_fails [of default_flags "env_ok ''CERT_A''"] o1
  have o2: "Go \<in> set (fst (patchCertLoop default_flags (env_ok ''CERT_A'')))"
    by blast
  from u1 u2 u3 u4 w2 w3 w4 o1 o2 show ?thesis by blast
qed

text \<open>
  Claim C5. Handling a watcher event changes nothing but the cached bundle, which
  becomes what the read of the configured file returned if it succeeded, and makes no
  call but that read and the log line of a failed read. The loop makes exactly one
  patch call per tick; so after any number of watcher events without a tick between
  them no patch has been made, and the next tick makes one patch call, with the most
  recently read bundle.
\<close>

theorem watcher_events_only_refresh:
  "fst (select st (WatcherEvent name fs)) =
     st\<lparr>caCertPem := most_recent_read (caCertFile (flags st)) (caCertPem st)
                       [WatcherEvent name fs]\<rparr> \<and>
   filter (\<lambda>c. \<not> is_log c) (snd (select st (WatcherEvent name fs))) =
     [ReadFile (caCertFile (flags st))] \<and>
   length (patches (snd (loop st es))) = length (filter is_tick es) \<and>
   ((\<forall>e\<in>set es'. \<not> is_tick e) \<longrightarrow>
      patches (snd (loop st es')) = [] \<and>
      patches (snd (loop st (es' @ [TickerC patch]))) =
        [PatchMutatingWebhookConfig (client st) (webhookConfigName (flags st))
           (webhookName (flags st))
           (most_recent_read (caCertFile (flags st)) (caCertPem st) es')])"
proof -
  have a: "filter (\<lambda>c. \<not> is_log c) (snd (select st (WatcherEvent name fs))) =
      [ReadFile (caCertFile (flags st))]"
    by (simp split: sum.split)
  have b: "patches (snd (loop st (es' @ [TickerC patch]))) =
        [PatchMutatingWebhookConfig (client st) (webhookConfigName (flags st))
           (webhookName (flags st))
           (most_recent_read (caCertFile (flags st)) (caCertPem st) es')]"
    if "\<forall>e\<in>set es'. \<not> is_tick e"
    using loop_no_tick [OF that, of st]
    by (simp add: loop_snoc patches_append patches_select_tick patch_of_loop
          del: loop.simps select.simps)
  show ?thesis
    using a b loop_no_tick [of es' st]
    by (simp add: select_event_state loop_patch_count del: loop.simps select.simps)
qed

theorem watcher_events_only_refresh_witness:
  "\<not> is_tick (WatcherEvent ''/etc/istio/certs/..data'' (fs_with ''CERT_B'')) \<and>
   \<not> is_tick (WatcherEvent ''/etc/istio/certs/root-cert.pem'' fs_missing) \<and>
   \<not> is_tick (WatcherEvent ''/etc/istio/certs/root-cert.pem'' (fs_with ''CERT_C'')) \<and>
   snd (loop (started ''CERT_A'')
     [WatcherEvent ''/etc/istio/certs/..data'' (fs_with ''CERT_B''),
      WatcherEvent ''/etc/istio/certs/root-cert.pem'' fs_missing,
      WatcherEvent ''/etc/istio/certs/root-cert.pem'' (fs_with ''CERT_C''),
      TickerC patch_ok]) =
     [ReadFile ''/etc/istio/certs/root-cert.pem'',
      ReadFile ''/etc/istio/certs/root-cert.pem'',
      Errorf ''CA bundle file read error: no such file or directory'',
      ReadFile ''/etc/istio/certs/root-cert.pem'',
      PatchMutatingWebhookConfig (Clientset 0) ''istio-sidecar-injector''
        ''sidecar-injector.istio.io'' ''CERT_C'']"
  using watcher_events_only_refresh [of "started ''CERT_A''" "[]" "fs_missing" "[]"
      "[WatcherEvent ''/etc/istio/certs/..data'' (fs_with ''CERT_B''),
        WatcherEvent ''/etc/istio/certs/root-cert.pem'' fs_missing,
        WatcherEvent ''/etc/istio/certs/root-cert.pem'' (fs_with ''CERT_C'')]" patch_ok]
  by (simp add: started_def default_flags_def fs_with_def fs_missing_def patch_ok_def Let_def)

text \<open>
  Claim C6, as stated, fails: the interval is not taken from the configuration. Under
  two configurations that differ in every value, the duration-valued flag
  \<^verbatim>\<open>healthCheckInterval\<close> included, the goroutine arms its ticker with the same
  constant \<^verbatim>\<open>time.Second\<close>.
\<close>

theorem interval_counterexample:
  "fst (run default_flags (env_ok ''CERT_A'') []) =
     [CreateClientset [] [], ReadFile ''/etc/istio/certs/root-cert.pem'', NewWatcher,
      Watch (Watcher 0) ''/etc/istio/certs/'', Go, NewTicker 1000000000] \<and>
   fst (run other_flags env_other []) =
     [CreateClientset ''/kube'' [], ReadFile ''/ca/root.pem'', NewWatcher,
      Watch (Watcher 1) ''/ca/'', Go, NewTicker 1000000000] \<and>
   healthCheckInterval other_flags = 5000000000"
  by (simp add: run_def goroutine_def Second_def patchCertLoop_def Split_def env_ok_def
        fs_with_def default_flags_def other_flags_def env_other_def)

text \<open>
  Claim C6, amended. After a successful start the goroutine arms one ticker, always
  with one second; the loop never changes \<^verbatim>\<open>flags\<close>, every read it makes is of
  the configured certificate path and every patch it makes names the configured
  resource and webhook entry.
\<close>

theorem interval_is_one_second:
  assumes "patchCertLoop fl env = (cs, Inr st)"
  shows "filter is_ticker (fst (run fl env es)) = [NewTicker 1000000000] \<and>
         flags st = fl \<and> flags (fst (goroutine st es)) = fl \<and>
         (\<forall>c\<in>set (snd (goroutine st es)).
            (is_read c \<longrightarrow> c = ReadFile (caCertFile fl)) \<and>
            (is_patch c \<longrightarrow>
               (\<exists>b. c = PatchMutatingWebhookConfig (client st) (webhookConfigName fl)
                         (webhookName fl) b)))"
proof -
  from patchCertLoop_Inr [OF assms] obtain c b w where
    cs: "cs = [CreateClientset (kubeconfigFile fl) [], ReadFile (caCertFile fl), NewWatcher,
               Watch w (fst (Split (caCertFile fl))), Go]" and
    st: "st = \<lparr> flags = fl, client = c, caCertPem = b, err = None, watcher = w \<rparr>"
    by blast
  have fl: "flags st = fl" by (simp add: st)
  have t: "filter is_ticker (fst (run fl env es)) = [NewTicker 1000000000]"
    by (simp add: run_def assms goroutine_calls loop_no_ticker Second_def cs del: loop.simps)
  have k: "flags (fst (goroutine st es)) = fl"
    by (simp add: goroutine_state loop_keeps fl del: loop.simps)
  have r: "(is_read x \<longrightarrow> x = ReadFile (caCertFile fl)) \<and>
           (is_patch x \<longrightarrow> (\<exists>b. x = PatchMutatingWebhookConfig (client st) (webhookConfigName fl)
                         (webhookName fl) b))"
    if "x \<in> set (snd (goroutine st es))" for x
  proof -
    from that have "x = NewTicker Second \<or> x \<in> set (snd (loop st es))"
      by (simp add: goroutine_calls del: loop.simps)
    then show ?thesis
    proof
      assume "x = NewTicker Second"
      then show ?thesis by simp
    next
      assume "x \<in> set (snd (loop st es))"
      from loop_calls [OF this] show ?thesis
        by (cases x) (auto simp: fl)
    qed
  qed
  from t fl k r show ?thesis by blast
qed

theorem interval_is_one_second_witness:
  "patchCertLoop other_flags env_other =
     ([CreateClientset ''/kube'' [], ReadFile ''/ca/root.pem'', NewWatcher,
       Watch (Watcher 1) ''/ca/'', Go],
      Inr \<lparr> flags = other_flags, client = Clientset 1, caCertPem = ''CERT_O'', err = None,
            watcher = Watcher 1 \<rparr>) \<and>
   filter is_ticker (fst (run other_flags env_other [TickerC patch_ok])) =
     [NewTicker 1000000000] \<and>
   snd (goroutine \<lparr> flags = other_flags, client = Clientset 1, caCertPem = ''CERT_O'',
          err = None, watcher = Watcher 1 \<rparr> [TickerC patch_ok]) =
     [NewTicker 1000000000, PatchMutatingWebhookConfig (Clientset 1) ''cfg'' ''hook'' ''CERT_O'']"
proof -
  have s: "patchCertLoop other_flags env_other =
     ([CreateClientset ''/kube'' [], ReadFile ''/ca/root.pem'', NewWatcher,
       Watch (Watcher 1) ''/ca/'', Go],
      Inr \<lparr> flags = other_flags, client = Clientset 1, caCertPem = ''CERT_O'', err = None,
            watcher = Watcher 1 \<rparr>)"
    by (simp add: patchCertLoop_def Split_def env_other_def other_flags_def)
  have g: "snd (goroutine \<lparr> flags = other_flags, client = Clientset 1, caCertPem = ''CERT_O'',
          err = None, watcher = Watcher 1 \<rparr> [TickerC patch_ok]) =
     [NewTicker 1000000000, PatchMutatingWebhookConfig (Clientset 1) ''cfg'' ''hook'' ''CERT_O'']"
    by (simp add: goroutine_def Second_def patch_ok_def other_flags_def Let_def)
  from interval_is_one_second [OF s, of "[TickerC patch_ok]"] s g show ?thesis
    by blast
qed

text \<open>
  Claim C7, as stated, fails: when the certificate file is empty the read succeeds
  with no bytes, \<^verbatim>\<open>patchCertLoop\<close> returns no error, the cached bundle is empty,
  and the first tick patches the configuration with the empty bundle.
\<close>

theorem empty_bundle_counterexample:
  "readFile (env_ok []) (caCertFile default_flags) = Inr [] \<and>
   patchCertLoop default_flags (env_ok []) =
     ([CreateClientset [] [], ReadFile ''/etc/istio/certs/root-cert.pem'', NewWatcher,
       Watch (Watcher 0) ''/etc/istio/certs/'', Go], Inr (started [])) \<and>
   caCertPem (started []) = [] \<and>
   patches (snd (goroutine (started []) [TickerC patch_ok])) =
     [PatchMutatingWebhookConfig (Clientset 0) ''istio-sidecar-injector''
        ''sidecar-injector.istio.io'' []]"
  by (simp add: patchCertLoop_def Split_def env_ok_def fs_with_def default_flags_def
        started_def goroutine_def patches_def patch_ok_def Let_def)

text \<open>
  Claim C7, amended. After a successful start the cached bundle is the content the
  startup read returned, whatever it is; the start fails whenever that read returns
  an error.
\<close>

theorem started_bundle_is_initial_read:
  "(patchCertLoop fl env = (cs, Inr st) \<longrightarrow> readFile env (caCertFile fl) = Inr (caCertPem st)) \<and>
   (isl (readFile env (caCertFile fl)) \<longrightarrow> isl (snd (patchCertLoop fl env)))"
  by (auto simp: patchCertLoop_def Let_def split: sum.splits option.splits)

theorem started_bundle_is_initial_read_witness:
  "patchCertLoop default_flags (env_ok ''CERT_A'') =
     ([CreateClientset [] [], ReadFile ''/etc/istio/certs/root-cert.pem'', NewWatcher,
       Watch (Watcher 0) ''/etc/istio/certs/'', Go], Inr (started ''CERT_A'')) \<and>
   readFile (env_ok ''CERT_A'') (caCertFile default_flags) = Inr ''CERT_A'' \<and>
   caCertPem (started ''CERT_A'') = ''CERT_A'' \<and>
   readFile env_unreadable (caCertFile default_flags) = Inl (Error ''no such file or directory'') \<and>
   patchCertLoop default_flags env_unreadable =
     ([CreateClientset [] [], ReadFile ''/etc/istio/certs/root-cert.pem''],
      Inl (Error ''no such file or directory''))"
proof -
  note s = start_ok [of "''CERT_A''"]
  have u: "isl (readFile env_unreadable (caCertFile default_flags))"
    by (simp add: env_unreadable_def fs_missing_def)
  have f: "patchCertLoop default_flags env_unreadable =
     ([CreateClientset [] [], ReadFile ''/etc/istio/certs/root-cert.pem''],
      Inl (Error ''no such file or directory''))"
    by (simp add: patchCertLoop_def default_flags_def env_unreadable_def env_ok_def
          fs_missing_def)
  from started_bundle_is_initial_read [of default_flags "env_ok ''CERT_A''" _ "started ''CERT_A''"] s
  have a: "readFile (env_ok ''CERT_A'') (caCertFile default_flags) = Inr (caCertPem (started ''CERT_A''))"
    by blast
  from started_bundle_is_initial_read [of default_flags env_unreadable] u
  have b: "isl (snd (patchCertLoop default_flags env_unreadable))"
    by blast
  have c: "caCertPem (started ''CERT_A'') = ''CERT_A''"
    by (simp add: started_def)
  have d: "readFile env_unreadable (caCertFile default_flags) =
      Inl (Error ''no such file or directory'')"
    by (simp add: env_unreadable_def fs_missing_def)
  from s a b c d f show ?thesis by simp
qed

text \<open>
  Claim C8. A successful start registers one watch, on the directory part that
  \<^verbatim>\<open>filepath.Split\<close> gives for the certificate path: the prefix of the path up to
  and including its last separator, the rest being a file name without separator, so
  that the watched path differs from the certificate path whenever that file name is
  not empty. Every watcher event, whatever file it names, makes the loop read the
  configured certificate path and no other, and its outcome depends only on what that
  read returns.
\<close>

theorem watch_directory_read_file:
  "(patchCertLoop fl env = (cs, Inr st) \<longrightarrow>
      filter is_watch cs = [Watch (watcher st) (fst (Split (caCertFile fl)))]) \<and>
   fst (Split p) @ snd (Split p) = p \<and>
   CHR ''/'' \<notin> set (snd (Split p)) \<and>
   (fst (Split p) = [] \<or> last (fst (Split p)) = CHR ''/'') \<and>
   (snd (Split p) \<noteq> [] \<longrightarrow> fst (Split p) \<noteq> p) \<and>
   filter is_read (snd (select st' (WatcherEvent name fs))) =
     [ReadFile (caCertFile (flags st'))] \<and>
   (fs (caCertFile (flags st')) = fs' (caCertFile (flags st')) \<longrightarrow>
      select st' (WatcherEvent name fs) = select st' (WatcherEvent name' fs'))"
proof -
  have a: "filter is_watch cs = [Watch (watcher st) (fst (Split (caCertFile fl)))]"
    if "patchCertLoop fl env = (cs, Inr st)"
    using patchCertLoop_Inr [OF that] by auto
  have b: "filter is_read (snd (select st' (WatcherEvent name fs))) =
     [ReadFile (caCertFile (flags st'))]"
    by (simp split: sum.split)
  have c: "select st' (WatcherEvent name fs) = select st' (WatcherEvent name' fs')"
    if "fs (caCertFile (flags st')) = fs' (caCertFile (flags st'))"
    using that by simp
  from a b c Split_append [of p] Split_file [of p] Split_dir [of p] Split_proper [of p]
  show ?thesis by blast
qed

theorem watch_directory_read_file_witness:
  "patchCertLoop default_flags (env_ok ''CERT_A'') =
     ([CreateClientset [] [], ReadFile ''/etc/istio/certs/root-cert.pem'', NewWatcher,
       Watch (Watcher 0) ''/etc/istio/certs/'', Go], Inr (started ''CERT_A'')) \<and>
   filter is_watch
     [CreateClientset [] [], ReadFile ''/etc/istio/certs/root-cert.pem'', NewWatcher,
      Watch (Watcher 0) ''/etc/istio/certs/'', Go] =
     [Watch (Watcher 0) ''/etc/istio/certs/''] \<and>
   Split ''/etc/istio/certs/root-cert.pem'' = (''/etc/istio/certs/'', ''root-cert.pem'') \<and>
   ''/etc/istio/certs/'' \<noteq> ''/etc/istio/certs/root-cert.pem'' \<and>
   select (started ''CERT_A'') (WatcherEvent ''/etc/istio/certs/key.pem'' (fs_with ''CERT_B'')) =
     (started ''CERT_B'', [ReadFile ''/etc/istio/certs/root-cert.pem'']) \<and>
   select (started ''CERT_A'')
       (WatcherEvent ''/etc/istio/certs/root-cert.pem'' (fs_with ''CERT_B'')) =
     select (started ''CERT_A'') (WatcherEvent ''/etc/istio/certs/key.pem'' (fs_with ''CERT_B''))"
proof -
  note s = start_ok [of "''CERT_A''"]
  have p: "Split ''/etc/istio/certs/root-cert.pem'' = (''/etc/istio/certs/'', ''root-cert.pem'')"
    by (simp add: Split_def)
  have d: "caCertFile default_flags = ''/etc/istio/certs/root-cert.pem''"
    by (simp add: default_flags_def)
  have w: "watcher (started ''CERT_A'') = Watcher 0"
    by (simp add: started_def)
  have e: "select (started ''CERT_A'')
       (WatcherEvent ''/etc/istio/certs/key.pem'' (fs_with ''CERT_B'')) =
     (started ''CERT_B'', [ReadFile ''/etc/istio/certs/root-cert.pem''])"
    by (simp add: started_def default_flags_def fs_with_def)
  note t = watch_directory_read_file [of default_flags "env_ok ''CERT_A''"
      "[CreateClientset [] [], ReadFile ''/etc/istio/certs/root-cert.pem'', NewWatcher,
        Watch (Watcher 0) ''/etc/istio/certs/'', Go]" "started ''CERT_A''"
      "''/etc/istio/certs/root-cert.pem''" "started ''CERT_A''"
      "''/etc/istio/certs/root-cert.pem''" "fs_with ''CERT_B''" "fs_with ''CERT_B''"
      "''/etc/istio/certs/key.pem''"]
  from t s have "filter is_watch
     [CreateClientset [] [], ReadFile ''/etc/istio/certs/root-cert.pem'', NewWatcher,
      Watch (Watcher 0) ''/etc/istio/certs/'', Go] =
     [Watch (watcher (started ''CERT_A'')) (fst (Split (caCertFile default_flags)))]"
    by blast
  then have f: "filter is_watch
     [CreateClientset [] [], ReadFile ''/etc/istio/certs/root-cert.pem'', NewWatcher,
      Watch (Watcher 0) ''/etc/istio/certs/'', Go] =
     [Watch (Watcher 0) ''/etc/istio/certs/'']"
    by (simp only: d p w fst_conv)
  from t have "snd (Split ''/etc/istio/certs/root-cert.pem'') \<noteq> [] \<longrightarrow>
      fst (Split ''/etc/istio/certs/root-cert.pem'') \<noteq> ''/etc/istio/certs/root-cert.pem''"
    by blast
  then have n: "''/etc/istio/certs/'' \<noteq> ''/etc/istio/certs/root-cert.pem''"
    by (simp add: p)
  from t have g: "select (started ''CERT_A'')
       (WatcherEvent ''/etc/istio/certs/root-cert.pem'' (fs_with ''CERT_B'')) =
     select (started ''CERT_A'') (WatcherEvent ''/etc/istio/certs/key.pem'' (fs_with ''CERT_B''))"
    by blast
  from s f p n e g show ?thesis by blast
qed

text \<open>
  Claim C10. When \<^verbatim>\<open>patchCertLoop\<close> returns \<^verbatim>\<open>nil\<close>, its four startup calls
  have succeeded and the calls it has made are those four and the launch of the
  goroutine, with no patch among them. The goroutine first arms the one-second ticker;
  as long as no tick has been received no patch is made, and the first tick makes the
  first patch call, whose outcome the start never saw.
\<close>

theorem nil_return_precedes_first_patch:
  assumes "patchCertLoop fl env = (cs, Inr st)"
  shows "(\<exists>c b w. createClientset env (kubeconfigFile fl) [] = Inr c \<and>
            readFile env (caCertFile fl) = Inr b \<and> newWatcher env = Inr w \<and>
            watch env w (fst (Split (caCertFile fl))) = None \<and>
            cs = [CreateClientset (kubeconfigFile fl) [], ReadFile (caCertFile fl), NewWatcher,
                  Watch w (fst (Split (caCertFile fl))), Go]) \<and>
         patches cs = [] \<and>
         hd (snd (goroutine st es)) = NewTicker 1000000000 \<and>
         ((\<forall>e\<in>set es. \<not> is_tick e) \<longrightarrow>
            patches (fst (run fl env es)) = [] \<and>
            patches (fst (run fl env (es @ [TickerC patch]))) =
              [patch_of (fst (loop st es))])"
proof -
  from patchCertLoop_Inr [OF assms] obtain c b w where
    four: "createClientset env (kubeconfigFile fl) [] = Inr c \<and>
            readFile env (caCertFile fl) = Inr b \<and> newWatcher env = Inr w \<and>
            watch env w (fst (Split (caCertFile fl))) = None" and
    cs: "cs = [CreateClientset (kubeconfigFile fl) [], ReadFile (caCertFile fl), NewWatcher,
               Watch w (fst (Split (caCertFile fl))), Go]"
    by blast
  have p: "patches cs = []" by (simp add: cs patches_def)
  have t: "hd (snd (goroutine st es)) = NewTicker 1000000000"
    by (simp add: goroutine_calls Second_def del: loop.simps)
  have r: "patches (fst (run fl env xs)) = patches (snd (loop st xs))" for xs
    using p by (simp add: run_def assms goroutine_calls patches_append del: loop.simps)
       (simp add: patches_def)
  have n: "patches (fst (run fl env es)) = [] \<and>
           patches (fst (run fl env (es @ [TickerC patch]))) = [patch_of (fst (loop st es))]"
    if "\<forall>e\<in>set es. \<not> is_tick e"
    using loop_no_tick [OF that, of st]
    by (simp add: r loop_snoc patches_append patches_select_tick del: loop.simps select.simps)
  from four cs p t n show ?thesis by blast
qed

theorem nil_return_precedes_first_patch_witness:
  "patchCertLoop default_flags (env_ok ''CERT_A'') =
     ([CreateClientset [] [], ReadFile ''/etc/istio/certs/root-cert.pem'', NewWatcher,
       Watch (Watcher 0) ''/etc/istio/certs/'', Go], Inr (started ''CERT_A'')) \<and>
   \<not> is_tick (WatcherEvent ''/etc/istio/certs/root-cert.pem'' (fs_with ''CERT_B'')) \<and>
   fst (run default_flags (env_ok ''CERT_A'')
     [WatcherEvent ''/etc/istio/certs/root-cert.pem'' (fs_with ''CERT_B'')]) =
     [CreateClientset [] [], ReadFile ''/etc/istio/certs/root-cert.pem'', NewWatcher,
      Watch (Watcher 0) ''/etc/istio/certs/'', Go, NewTicker 1000000000,
      ReadFile ''/etc/istio/certs/root-cert.pem''] \<and>
   fst (run default_flags (env_ok ''CERT_A'')
     [WatcherEvent ''/etc/istio/certs/root-cert.pem'' (fs_with ''CERT_B''), TickerC patch_err]) =
     [CreateClientset [] [], ReadFile ''/etc/istio/certs/root-cert.pem'', NewWatcher,
      Watch (Watcher 0) ''/etc/istio/certs/'', Go, NewTicker 1000000000,
      ReadFile ''/etc/istio/certs/root-cert.pem'',
      PatchMutatingWebhookConfig (Clientset 0) ''istio-sidecar-injector''
        ''sidecar-injector.istio.io'' ''CERT_B'',
      Errorf ''Patch webhook failed: not found'']"
proof -
  note s = start_ok [of "''CERT_A''"]
  show ?thesis
    using nil_return_precedes_first_patch [OF s,
        of "[WatcherEvent ''/etc/istio/certs/root-cert.pem'' (fs_with ''CERT_B'')]" patch_err]
    by (simp add: patchCertLoop_def Split_def env_ok_def run_def goroutine_def Second_def
          started_def default_flags_def fs_with_def patch_err_def Let_def)
qed

end
